theory Spec2Isabelle
  imports Complex_Main "HOL-Library.AList"
begin

section \<open>JavaScript numbers\<close>

text \<open>
  A JavaScript \<^verbatim>\<open>number\<close> is modelled as a finite real or \<^verbatim>\<open>NaN\<close>. Rounding and the
  two infinities of IEEE doubles are not represented; none of the functions below
  branches on them. Comparisons with \<^verbatim>\<open>NaN\<close> are false and arithmetic on \<^verbatim>\<open>NaN\<close>
  gives \<^verbatim>\<open>NaN\<close>, as in the language.
\<close>

datatype number = NaN | Num real

fun num_lt :: "number \<Rightarrow> number \<Rightarrow> bool" where
  "num_lt (Num a) (Num b) = (a < b)"
| "num_lt _ _ = False"

definition num_gt :: "number \<Rightarrow> number \<Rightarrow> bool" where
  "num_gt a b = num_lt b a"

fun num_mul :: "number \<Rightarrow> number \<Rightarrow> number" where
  "num_mul (Num a) (Num b) = Num (a * b)"
| "num_mul _ _ = NaN"

fun num_add :: "number \<Rightarrow> number \<Rightarrow> number" where
  "num_add (Num a) (Num b) = Num (a + b)"
| "num_add _ _ = NaN"

fun num_sub :: "number \<Rightarrow> number \<Rightarrow> number" where
  "num_sub (Num a) (Num b) = Num (a - b)"
| "num_sub _ _ = NaN"

text \<open>Division is only used with a divisor the source has already tested to be non-zero
  (a literal, or a value that passed a truthiness test); a zero divisor would give an
  infinity, which is outside the model, and is mapped to \<^verbatim>\<open>NaN\<close>.\<close>

fun num_div :: "number \<Rightarrow> number \<Rightarrow> number" where
  "num_div (Num a) (Num b) = (if b = 0 then NaN else Num (a / b))"
| "num_div _ _ = NaN"

fun num_abs :: "number \<Rightarrow> number" where
  "num_abs (Num a) = Num \<bar>a\<bar>"
| "num_abs NaN = NaN"

text \<open>Truthiness of a number: \<^verbatim>\<open>0\<close> and \<^verbatim>\<open>NaN\<close> are falsy.\<close>

fun truthy :: "number \<Rightarrow> bool" where
  "truthy (Num a) = (a \<noteq> 0)"
| "truthy NaN = False"

text \<open>\<^verbatim>\<open>a || b\<close> on numbers that may be \<^verbatim>\<open>null\<close> or \<^verbatim>\<open>undefined\<close> (\<open>None\<close>).\<close>

fun num_or :: "number option \<Rightarrow> number \<Rightarrow> number" where
  "num_or (Some a) d = (if truthy a then a else d)"
| "num_or None d = d"

text \<open>\<^verbatim>\<open>a || b\<close> on strings: the empty string, \<^verbatim>\<open>null\<close> and \<^verbatim>\<open>undefined\<close> are falsy.\<close>

fun str_or :: "string option \<Rightarrow> string \<Rightarrow> string" where
  "str_or (Some s) d = (if s = [] then d else s)"
| "str_or None d = d"

text \<open>\<^verbatim>\<open>a || undefined\<close> on an optional string.\<close>

fun str_or_undefined :: "string option \<Rightarrow> string option" where
  "str_or_undefined (Some s) = (if s = [] then None else Some s)"
| "str_or_undefined None = None"

text \<open>Truthiness of an optional string.\<close>

fun str_truthy :: "string option \<Rightarrow> bool" where
  "str_truthy (Some s) = (s \<noteq> [])"
| "str_truthy None = False"

text \<open>
  The host environment: the built-in \<^verbatim>\<open>parseFloat\<close>, the time value of
  \<^verbatim>\<open>new Date(s)\<close> for a string (\<^verbatim>\<open>NaN\<close> for an invalid date), and the clock read by
  \<^verbatim>\<open>Date.now()\<close> and \<^verbatim>\<open>new Date()\<close>. A \<^verbatim>\<open>Date\<close> is represented by its time value in
  milliseconds; all clock reads made while one event is handled return the same instant.
\<close>

type_synonym Date = number

record js_env =
  parseFloat :: "string \<Rightarrow> number"
  dateOf :: "string \<Rightarrow> Date"
  now :: Date

section \<open>formatters.ts\<close>

definition safeParseFloat :: "js_env \<Rightarrow> string option \<Rightarrow> number \<Rightarrow> number" where
  "safeParseFloat e v fallback =
     (case v of
        None \<Rightarrow> fallback
      | Some s \<Rightarrow>
          if s = [] then fallback
          else (case parseFloat e s of NaN \<Rightarrow> fallback | Num x \<Rightarrow> Num x))"

section \<open>test-task-types.ts\<close>

datatype SupportedChainName = ETH | SOL | BASE | BSC

datatype OrderBy = Asc | Desc

datatype TableType = TrendingTable | NewTable

datatype TimeFrame = TF_5M | TF_1H | TF_6H | TF_24H

datatype SerdeRankBy =
    Price5M | Price1H | Price6H | Price24H | Volume | Txns | Buys | Sells
  | Trending | Age | LiquidityRank | Mcap | Migration

text \<open>
  Query parameters. Every field is optional; \<open>None\<close> stands for an absent key (and for
  \<^verbatim>\<open>null\<close> or \<^verbatim>\<open>undefined\<close>, which the fetch client drops alike).
\<close>

record GetScannerResultParams =
  chain_q :: "SupportedChainName option"
  orderBy :: "OrderBy option"
  rankBy :: "SerdeRankBy option"
  timeFrame :: "TimeFrame option"
  page :: "int option"
  isNotHP :: "bool option"
  isVerified :: "bool option"
  minVol24H :: "number option"
  maxVol24H :: "number option"
  minAge :: "number option"
  maxAge :: "number option"
  minLiq :: "number option"
  maxLiq :: "number option"
  minBuys24H :: "number option"
  minSells24H :: "number option"
  minTxns24H :: "number option"
  dexes :: "string list option"
  virtualDexes :: "string list option"

definition no_params :: GetScannerResultParams where
  "no_params =
     \<lparr> chain_q = None, orderBy = None, rankBy = None, timeFrame = None, page = None,
       isNotHP = None, isVerified = None, minVol24H = None, maxVol24H = None,
       minAge = None, maxAge = None, minLiq = None, maxLiq = None, minBuys24H = None,
       minSells24H = None, minTxns24H = None, dexes = None, virtualDexes = None \<rparr>"

text \<open>
  The fields of a raw scanner record that the normalizer reads. Fields declared
  \<^verbatim>\<open>string\<close> arrive as \<^verbatim>\<open>null\<close> in the repository's fixtures, so every parsed field is
  optional (\<open>None\<close> for \<^verbatim>\<open>null\<close> or \<^verbatim>\<open>undefined\<close>).
\<close>

record ScannerResult =
  age :: string
  buys :: "number option"
  chainId :: int
  contractVerified :: bool
  currentMcap :: "string option"
  dexPaid :: bool
  diff1H :: "string option"
  diff24H :: "string option"
  diff5M :: "string option"
  diff6H :: "string option"
  discordLink :: "string option"
  honeyPot :: "bool option"
  initialMcap :: "string option"
  isFreezeAuthDisabled :: bool
  isMintAuthDisabled :: bool
  liquidity :: "string option"
  virtualRouterType :: "string option"
  migrationProgress :: "string option"
  pairAddress :: string
  pairMcapUsd :: "string option"
  pairMcapUsdInitial :: "string option"
  percentChangeInLiquidity :: "string option"
  price :: "string option"
  sells :: "number option"
  telegramLink :: "string option"
  token1Address :: string
  token1Name :: "string option"
  token1Symbol :: "string option"
  token1TotalSupplyFormatted :: "string option"
  twitterLink :: "string option"
  volume :: "string option"
  webLink :: "string option"

record ChartDataPoint =
  timestamp :: number
  price_pt :: number

record PriceChangePcs =
  pc5M :: number
  pc1H :: number
  pc6H :: number
  pc24H :: number

record Transactions =
  buys_tk :: number
  sells_tk :: number

record Audit =
  mintable :: bool
  freezable :: bool
  honeypot :: bool
  contractVerified_tk :: bool

record Liquidity =
  current :: number
  changePc :: number

record SocialLinks =
  discord :: "string option"
  telegram :: "string option"
  twitter :: "string option"
  website :: "string option"

record TokenData =
  id_tk :: string
  tokenName :: string
  tokenSymbol :: string
  tokenAddress :: string
  pairAddress_tk :: string
  chain :: SupportedChainName
  exchange :: string
  priceUsd :: number
  volumeUsd :: number
  mcap :: number
  totalSupply :: number
  priceChangePcs :: PriceChangePcs
  transactions :: Transactions
  audit :: Audit
  tokenCreatedTimestamp :: Date
  liquidity_tk :: Liquidity
  migrationPc :: "number option"
  socialLinks :: "SocialLinks option"
  dexPaid_tk :: "bool option"
  lastUpdated :: Date
  priceHistory :: "ChartDataPoint list option"

subsection \<open>Incoming and outgoing messages\<close>

record WsTokenSwap =
  priceToken1Usd :: string
  isOutlier :: bool

record PairSubscriptionPayload =
  pair_sub :: string
  token_sub :: string
  chain_sub :: SupportedChainName

record TickEventPayload =
  pair_tick :: PairSubscriptionPayload
  swaps :: "WsTokenSwap list"

text \<open>The fields of \<^verbatim>\<open>ScannerPairDetails\<close> that the pair-stats handler reads.\<close>

record ScannerPairDetails =
  pairAddress_pd :: string
  mintAuthorityRenounced :: bool
  freezeAuthorityRenounced :: bool
  token1IsHoneypot :: "bool option"
  isVerified_pd :: bool
  linkDiscord :: "string option"
  linkTelegram :: "string option"
  linkTwitter :: "string option"
  linkWebsite :: "string option"
  dexPaid_pd :: bool

record PairStatsMsgData =
  pair_stats :: ScannerPairDetails
  migrationProgress_ps :: string

record ScannerPairsEventPayload =
  filter_sp :: GetScannerResultParams
  results_pairs :: "ScannerResult list"

datatype IncomingWebSocketMessage =
    Tick TickEventPayload
  | PairStats PairStatsMsgData
  | ScannerPairs ScannerPairsEventPayload

text \<open>
  The pair messages carry pair address, token address and chain. On the unsubscribe
  path these come from splitting a stored key, so a component may be \<^verbatim>\<open>undefined\<close>.
\<close>

datatype OutgoingWebSocketMessage =
    ScannerFilter GetScannerResultParams
  | UnsubscribeScannerFilter GetScannerResultParams
  | SubscribePair "string option" "string option" "string option"
  | UnsubscribePair "string option" "string option" "string option"
  | SubscribePairStats "string option" "string option" "string option"
  | UnsubscribePairStats "string option" "string option" "string option"

definition TRENDING_TOKENS_FILTERS :: GetScannerResultParams where
  "TRENDING_TOKENS_FILTERS =
     no_params\<lparr> rankBy := Some Volume, orderBy := Some Desc, minVol24H := Some (Num 1000),
       isNotHP := Some True, maxAge := Some (Num (7 * 24 * 60 * 60)) \<rparr>"

definition NEW_TOKENS_FILTERS :: GetScannerResultParams where
  "NEW_TOKENS_FILTERS =
     no_params\<lparr> rankBy := Some Age, orderBy := Some Desc,
       maxAge := Some (Num (24 * 60 * 60)), isNotHP := Some True \<rparr>"

subsection \<open>Filter state and strategy presets\<close>

text \<open>\<^verbatim>\<open>CombinedFilterType\<close> is one of five names or \<^verbatim>\<open>null\<close> (\<open>None\<close>).\<close>

datatype CombinedFilterName = Moonshot | BlueChip | Scalp | Hodl | Custom

type_synonym CombinedFilterType = "CombinedFilterName option"

record FilterState =
  chains :: "SupportedChainName list"
  minVolume :: "number option"
  maxAge_f :: "number option"
  minMarketCap :: "number option"
  excludeHoneypots :: bool
  combinedFilter :: CombinedFilterType

record AdditionalChecks =
  minPriceChange5M :: "number option"
  maxPriceChange5M :: "number option"
  minVolumeGrowth :: "number option"
  minLiquidityRatio :: "number option"
  maxRiskScore :: "number option"
  minTransactionCount :: "number option"
  requiresSocialLinks :: "bool option"

definition no_checks :: AdditionalChecks where
  "no_checks =
     \<lparr> minPriceChange5M = None, maxPriceChange5M = None, minVolumeGrowth = None,
       minLiquidityRatio = None, maxRiskScore = None, minTransactionCount = None,
       requiresSocialLinks = None \<rparr>"

record CombinedFilterConfig =
  type_c :: CombinedFilterType
  name_c :: string
  description :: string
  emoji :: string
  criteria :: GetScannerResultParams
  additionalChecks :: "AdditionalChecks option"

text \<open>The emoji of a preset is given by its UTF-8 bytes.\<close>

definition COMBINED_FILTER_PRESETS :: "CombinedFilterName \<Rightarrow> CombinedFilterConfig option" where
  "COMBINED_FILTER_PRESETS n =
     (case n of
        Moonshot \<Rightarrow> Some
          \<lparr> type_c = Some Moonshot,
            name_c = ''Moonshot Potential'',
            description = ''Young tokens with high growth potential'',
            emoji = [CHR 0xF0, CHR 0x9F, CHR 0x9A, CHR 0x80],
            criteria = no_params\<lparr> maxAge := Some (Num (24 * 60 * 60)),
              minVol24H := Some (Num 5000), rankBy := Some Volume, orderBy := Some Desc,
              isNotHP := Some True \<rparr>,
            additionalChecks = Some (no_checks\<lparr> minPriceChange5M := Some (Num 5),
              minVolumeGrowth := Some (Num 50), maxRiskScore := Some (Num 70),
              minTransactionCount := Some (Num 20) \<rparr>) \<rparr>
      | BlueChip \<Rightarrow> Some
          \<lparr> type_c = Some BlueChip,
            name_c = ''Safe Blue Chips'',
            description = ''Stable tokens with high liquidity'',
            emoji = [CHR 0xF0, CHR 0x9F, CHR 0x92, CHR 0x8E],
            criteria = no_params\<lparr> minVol24H := Some (Num 100000), minLiq := Some (Num 50000),
              maxAge := Some (Num (30 * 24 * 60 * 60)), rankBy := Some Volume,
              orderBy := Some Desc, isNotHP := Some True, isVerified := Some True \<rparr>,
            additionalChecks = Some (no_checks\<lparr> maxPriceChange5M := Some (Num 10),
              minLiquidityRatio := Some (Num 0.1), maxRiskScore := Some (Num 30),
              requiresSocialLinks := Some True \<rparr>) \<rparr>
      | Scalp \<Rightarrow> Some
          \<lparr> type_c = Some Scalp,
            name_c = ''Quick Scalps'',
            description = ''Quick trades with high volatility'',
            emoji = [CHR 0xE2, CHR 0x9A, CHR 0xA1],
            criteria = no_params\<lparr> minVol24H := Some (Num 20000), rankBy := Some Volume,
              orderBy := Some Desc, isNotHP := Some True \<rparr>,
            additionalChecks = Some (no_checks\<lparr> minVolumeGrowth := Some (Num 100),
              minTransactionCount := Some (Num 50), maxRiskScore := Some (Num 60) \<rparr>) \<rparr>
      | Hodl \<Rightarrow> Some
          \<lparr> type_c = Some Hodl,
            name_c = ''Long-term Holds'',
            description = ''Long-term investments with growth potential'',
            emoji = [CHR 0xF0, CHR 0x9F, CHR 0x8F, CHR 0x86],
            criteria = no_params\<lparr> minVol24H := Some (Num 50000), minLiq := Some (Num 100000),
              maxAge := Some (Num (365 * 24 * 60 * 60)), rankBy := Some Mcap,
              orderBy := Some Desc, isNotHP := Some True, isVerified := Some True \<rparr>,
            additionalChecks = Some (no_checks\<lparr> maxPriceChange5M := Some (Num 5),
              minLiquidityRatio := Some (Num 0.2), maxRiskScore := Some (Num 25),
              requiresSocialLinks := Some True \<rparr>) \<rparr>
      | Custom \<Rightarrow> None)"

section \<open>tokenUtils.ts\<close>

definition chainIdToName :: "int \<Rightarrow> SupportedChainName" where
  "chainIdToName c =
     (if c = 1 then ETH
      else if c = 56 then BSC
      else if c = 8453 then BASE
      else if c = 900 then SOL
      else ETH)"

definition calculateMarketCap :: "js_env \<Rightarrow> ScannerResult \<Rightarrow> number" where
  "calculateMarketCap e r =
     (let currentMcap' = safeParseFloat e (currentMcap r) (Num 0) in
      if num_gt currentMcap' (Num 0) then currentMcap'
      else
        let initialMcap' = safeParseFloat e (initialMcap r) (Num 0) in
        if num_gt initialMcap' (Num 0) then initialMcap'
        else
          let pairMcapUsd' = safeParseFloat e (pairMcapUsd r) (Num 0) in
          if num_gt pairMcapUsd' (Num 0) then pairMcapUsd'
          else
            let pairMcapUsdInitial' = safeParseFloat e (pairMcapUsdInitial r) (Num 0) in
            if num_gt pairMcapUsdInitial' (Num 0) then pairMcapUsdInitial'
            else
              let totalSupply' = safeParseFloat e (token1TotalSupplyFormatted r) (Num 0);
                  price' = safeParseFloat e (price r) (Num 0)
              in num_mul totalSupply' price')"

text \<open>
  \<^verbatim>\<open>generateMockPriceHistory\<close> draws its points from \<^verbatim>\<open>Math.random\<close>; the history it
  returns for a price and a creation date is taken as a parameter of the normalizer.
\<close>

type_synonym history_gen = "number \<Rightarrow> Date \<Rightarrow> ChartDataPoint list"

definition scannerResultToToken :: "js_env \<Rightarrow> history_gen \<Rightarrow> ScannerResult \<Rightarrow> TokenData" where
  "scannerResultToToken e generateMockPriceHistory r =
     (let marketCap = calculateMarketCap e r;
          currentPrice = safeParseFloat e (price r) (Num 0);
          tokenAge = dateOf e (age r)
      in \<lparr> id_tk = pairAddress r,
           tokenName = str_or (token1Name r) ''Unknown Token'',
           tokenSymbol = str_or (token1Symbol r) ''UNK'',
           tokenAddress = token1Address r,
           pairAddress_tk = pairAddress r,
           chain = chainIdToName (chainId r),
           exchange = str_or (virtualRouterType r) ''Router'',
           priceUsd = currentPrice,
           volumeUsd = safeParseFloat e (volume r) (Num 0),
           mcap = marketCap,
           totalSupply = safeParseFloat e (token1TotalSupplyFormatted r) (Num 0),
           priceChangePcs =
             \<lparr> pc5M = safeParseFloat e (diff5M r) (Num 0),
               pc1H = safeParseFloat e (diff1H r) (Num 0),
               pc6H = safeParseFloat e (diff6H r) (Num 0),
               pc24H = safeParseFloat e (diff24H r) (Num 0) \<rparr>,
           transactions =
             \<lparr> buys_tk = num_or (buys r) (Num 0),
               sells_tk = num_or (sells r) (Num 0) \<rparr>,
           audit =
             \<lparr> mintable = (\<not> isMintAuthDisabled r),
               freezable = (\<not> isFreezeAuthDisabled r),
               honeypot = (case honeyPot r of Some b \<Rightarrow> b | None \<Rightarrow> False),
               contractVerified_tk = contractVerified r \<rparr>,
           tokenCreatedTimestamp = tokenAge,
           liquidity_tk =
             \<lparr> current = safeParseFloat e (liquidity r) (Num 0),
               changePc = safeParseFloat e (percentChangeInLiquidity r) (Num 0) \<rparr>,
           migrationPc =
             (if str_truthy (migrationProgress r)
              then Some (safeParseFloat e (migrationProgress r) (Num 0)) else None),
           socialLinks =
             Some \<lparr> discord = str_or_undefined (discordLink r),
                    telegram = str_or_undefined (telegramLink r),
                    twitter = str_or_undefined (twitterLink r),
                    website = str_or_undefined (webLink r) \<rparr>,
           dexPaid_tk = Some (dexPaid r),
           lastUpdated = now e,
           priceHistory = Some (generateMockPriceHistory currentPrice tokenAge) \<rparr>)"

section \<open>combinedFilters.ts\<close>

definition getCombinedFilterConfig :: "CombinedFilterType \<Rightarrow> CombinedFilterConfig option" where
  "getCombinedFilterConfig t =
     (case t of None \<Rightarrow> None | Some n \<Rightarrow> COMBINED_FILTER_PRESETS n)"

text \<open>Object spread \<^verbatim>\<open>{...a, ...b}\<close> on one optional key: a key present in \<open>b\<close> wins.\<close>

definition spread :: "'a option \<Rightarrow> 'a option \<Rightarrow> 'a option" where
  "spread a b = (case b of Some v \<Rightarrow> Some v | None \<Rightarrow> a)"

definition applyCombinedFilterToParams ::
  "GetScannerResultParams \<Rightarrow> CombinedFilterType \<Rightarrow> GetScannerResultParams" where
  "applyCombinedFilterToParams baseParams combinedFilterType =
     (case combinedFilterType of
        None \<Rightarrow> baseParams
      | Some _ \<Rightarrow>
          (case getCombinedFilterConfig combinedFilterType of
             None \<Rightarrow> baseParams
           | Some config \<Rightarrow>
               (let c = criteria config in
                \<lparr> chain_q = chain_q baseParams,
                  orderBy = spread (orderBy baseParams) (orderBy c),
                  rankBy = spread (rankBy baseParams) (rankBy c),
                  timeFrame = spread (timeFrame baseParams) (timeFrame c),
                  page = page baseParams,
                  isNotHP = spread (isNotHP baseParams) (isNotHP c),
                  isVerified = spread (isVerified baseParams) (isVerified c),
                  minVol24H = spread (minVol24H baseParams) (minVol24H c),
                  maxVol24H = spread (maxVol24H baseParams) (maxVol24H c),
                  minAge = spread (minAge baseParams) (minAge c),
                  maxAge = spread (maxAge baseParams) (maxAge c),
                  minLiq = spread (minLiq baseParams) (minLiq c),
                  maxLiq = spread (maxLiq baseParams) (maxLiq c),
                  minBuys24H = spread (minBuys24H baseParams) (minBuys24H c),
                  minSells24H = spread (minSells24H baseParams) (minSells24H c),
                  minTxns24H = spread (minTxns24H baseParams) (minTxns24H c),
                  dexes = spread (dexes baseParams) (dexes c),
                  virtualDexes = spread (virtualDexes baseParams) (virtualDexes c) \<rparr>)))"

text \<open>
  \<^verbatim>\<open>token.socialLinks && (twitter || telegram || website)\<close>, as a truth value. The
  Discord link is not among the three that are tested.
\<close>

definition hasLinks :: "TokenData \<Rightarrow> bool" where
  "hasLinks t =
     (case socialLinks t of
        None \<Rightarrow> False
      | Some l \<Rightarrow> str_truthy (twitter l) \<or> str_truthy (telegram l) \<or> str_truthy (website l))"

text \<open>
  The risk score. The guards \<^verbatim>\<open>if (token.tokenCreatedTimestamp)\<close> and
  \<^verbatim>\<open>if (token.audit)\<close> test objects that the type makes always present, so they are
  always taken. The score is a sum of integer literals.
\<close>

definition ageInHours :: "js_env \<Rightarrow> TokenData \<Rightarrow> number" where
  "ageInHours e t = num_div (num_sub (now e) (tokenCreatedTimestamp t)) (Num (1000 * 60 * 60))"

definition liquidityRatio :: "TokenData \<Rightarrow> number" where
  "liquidityRatio t = num_div (current (liquidity_tk t)) (mcap t)"

definition ageFactor :: "js_env \<Rightarrow> TokenData \<Rightarrow> real" where
  "ageFactor e t =
     (if num_lt (ageInHours e t) (Num 1) then 40
      else if num_lt (ageInHours e t) (Num 24) then 30
      else if num_lt (ageInHours e t) (Num 168) then 20
      else if num_lt (ageInHours e t) (Num 720) then 10
      else 0)"

definition liquidityFactor :: "TokenData \<Rightarrow> real" where
  "liquidityFactor t =
     (if truthy (current (liquidity_tk t)) \<and> truthy (mcap t) then
        (if num_lt (liquidityRatio t) (Num 0.05) then 25
         else if num_lt (liquidityRatio t) (Num 0.1) then 15
         else if num_lt (liquidityRatio t) (Num 0.2) then 5
         else 0)
      else 0)"

definition auditFactor :: "TokenData \<Rightarrow> real" where
  "auditFactor t =
     (if honeypot (audit t) then 50 else 0)
     + (if mintable (audit t) then 20 else 0)
     + (if freezable (audit t) then 15 else 0)
     + (if \<not> contractVerified_tk (audit t) then 25 else 0)"

definition volumeFactor :: "TokenData \<Rightarrow> real" where
  "volumeFactor t =
     (if num_lt (volumeUsd t) (Num 1000) then 20
      else if num_lt (volumeUsd t) (Num 10000) then 10
      else 0)"

definition calculateRiskScore :: "js_env \<Rightarrow> TokenData \<Rightarrow> real" where
  "calculateRiskScore e t =
     (let riskScore = 0 + ageFactor e t + liquidityFactor t + auditFactor t + volumeFactor t
                      + (if \<not> hasLinks t then 15 else 0)
      in min 100 (max 0 riskScore))"

definition passesAdditionalChecks :: "js_env \<Rightarrow> TokenData \<Rightarrow> CombinedFilterType \<Rightarrow> bool" where
  "passesAdditionalChecks e t combinedFilterType =
     (case combinedFilterType of
        None \<Rightarrow> True
      | Some _ \<Rightarrow>
          (case getCombinedFilterConfig combinedFilterType of
             None \<Rightarrow> True
           | Some config \<Rightarrow>
               (case additionalChecks config of
                  None \<Rightarrow> True
                | Some checks \<Rightarrow>
                    (let priceChange5M = num_or (Some (pc5M (priceChangePcs t))) (Num 0);
                         totalTxns = num_add (num_or (Some (buys_tk (transactions t))) (Num 0))
                                             (num_or (Some (sells_tk (transactions t))) (Num 0))
                     in
                       (case minPriceChange5M checks of
                          None \<Rightarrow> True
                        | Some m \<Rightarrow> \<not> num_lt priceChange5M m)
                     \<and> (case maxPriceChange5M checks of
                          None \<Rightarrow> True
                        | Some m \<Rightarrow> \<not> num_gt (num_abs priceChange5M) m)
                     \<and> (case minVolumeGrowth checks of
                          None \<Rightarrow> True
                        | Some _ \<Rightarrow>
                            \<not> num_lt totalTxns (num_or (minTransactionCount checks) (Num 10)))
                     \<and> (case minLiquidityRatio checks of
                          None \<Rightarrow> True
                        | Some m \<Rightarrow>
                            if truthy (current (liquidity_tk t)) \<and> truthy (mcap t)
                            then \<not> num_lt (liquidityRatio t) m
                            else True)
                     \<and> (case maxRiskScore checks of
                          None \<Rightarrow> True
                        | Some m \<Rightarrow> \<not> num_gt (Num (calculateRiskScore e t)) m)
                     \<and> (case minTransactionCount checks of
                          None \<Rightarrow> True
                        | Some m \<Rightarrow> \<not> num_lt totalTxns m)
                     \<and> (if requiresSocialLinks checks = Some True then hasLinks t else True)))))"

definition filterTokensByCombinedFilter ::
  "js_env \<Rightarrow> TokenData list \<Rightarrow> CombinedFilterType \<Rightarrow> TokenData list" where
  "filterTokensByCombinedFilter e tokens combinedFilterType =
     (case combinedFilterType of
        None \<Rightarrow> tokens
      | Some _ \<Rightarrow> filter (\<lambda>t. passesAdditionalChecks e t combinedFilterType) tokens)"

definition buildApiParamsWithCombinedFilters ::
  "FilterState \<Rightarrow> TableType \<Rightarrow> int \<Rightarrow> GetScannerResultParams" where
  "buildApiParamsWithCombinedFilters filters tableType pg =
     (let baseParams0 =
        (if tableType = TrendingTable then
           no_params\<lparr> rankBy := Some Volume, orderBy := Some Desc,
             minVol24H := Some (num_or (minVolume filters) (Num 1000)),
             isNotHP := Some (excludeHoneypots filters),
             maxAge := Some (case maxAge_f filters of
                               Some a \<Rightarrow> if truthy a then num_mul (num_mul a (Num 60)) (Num 60)
                                         else Num (7 * 24 * 60 * 60)
                             | None \<Rightarrow> Num (7 * 24 * 60 * 60)),
             page := Some pg \<rparr>
         else
           no_params\<lparr> rankBy := Some Age, orderBy := Some Desc,
             maxAge := Some (case maxAge_f filters of
                               Some a \<Rightarrow> if truthy a then num_mul (num_mul a (Num 60)) (Num 60)
                                         else Num (24 * 60 * 60)
                             | None \<Rightarrow> Num (24 * 60 * 60)),
             isNotHP := Some (excludeHoneypots filters),
             page := Some pg \<rparr>);
          baseParams1 =
            (case minMarketCap filters of
               Some m \<Rightarrow> if truthy m then baseParams0\<lparr> minLiq := Some m \<rparr> else baseParams0
             | None \<Rightarrow> baseParams0);
          baseParams2 =
            (case chains filters of
               [] \<Rightarrow> baseParams1
             | c # _ \<Rightarrow> baseParams1\<lparr> chain_q := Some c \<rparr>)
      in applyCombinedFilterToParams baseParams2 (combinedFilter filters))"

section \<open>useTokenData.ts\<close>

record ScannerApiResponse =
  pairs :: "ScannerResult list"
  totalRows_r :: number

record UseTokenDataProps =
  tableType :: TableType
  filters :: "FilterState option"
  sortColumn :: "SerdeRankBy option"
  sortOrder :: "OrderBy option"

text \<open>
  One call of \<^verbatim>\<open>loadData\<close> that has reached its \<^verbatim>\<open>await\<close>: the arguments and what the
  closure captured (the request parameters and the strategy preset of the filters).
\<close>

record LoadRequest =
  rq_page :: int
  rq_append :: bool
  rq_params :: GetScannerResultParams
  rq_filter :: CombinedFilterType

text \<open>
  The state of one hook instance: the React state variables, the two refs, and the
  collaborators as the hook sees them (\<open>pending\<close>: the fetches issued and not yet
  settled; \<open>sent\<close>: the messages handed to the socket service; \<open>ws_open\<close>: what
  \<^verbatim>\<open>wsService.isConnected()\<close> returns). \<open>tokens_ref\<close> is the identity of the array
  object held in \<^verbatim>\<open>tokens\<close>: it changes exactly when a new array is stored, which is
  what re-runs the effects that depend on \<^verbatim>\<open>tokens\<close>. A JavaScript \<^verbatim>\<open>Map\<close> is an
  association list in insertion order with unique keys, a \<^verbatim>\<open>Set\<close> a list in insertion
  order. Each updater passed to \<^verbatim>\<open>setTokens\<close> is applied once, at the point of the call.
\<close>

record hook_state =
  tokens :: "TokenData list"
  tokens_ref :: nat
  loading :: bool
  error :: "string option"
  totalRows :: number
  connected_st :: bool
  currentPage :: int
  hasMore :: bool
  subscriptionsRef :: "string list"
  tokensMapRef :: "(string \<times> TokenData) list"
  pending :: "LoadRequest list"
  sent :: "OutgoingWebSocketMessage list"
  ws_open :: bool

definition initial_state :: hook_state where
  "initial_state =
     \<lparr> tokens = [], tokens_ref = 0, loading = True, error = None, totalRows = Num 0,
       connected_st = False, currentPage = 1, hasMore = True, subscriptionsRef = [],
       tokensMapRef = [], pending = [], sent = [], ws_open = False \<rparr>"

definition map_has :: "(string \<times> TokenData) list \<Rightarrow> string \<Rightarrow> bool" where
  "map_has m k = (map_of m k \<noteq> None)"

definition map_set :: "string \<Rightarrow> TokenData \<Rightarrow> (string \<times> TokenData) list \<Rightarrow> (string \<times> TokenData) list" where
  "map_set k v m = AList.update k v m"

definition set_add :: "string \<Rightarrow> string list \<Rightarrow> string list" where
  "set_add k s = (if k \<in> set s then s else s @ [k])"

text \<open>Storing a new array object in \<^verbatim>\<open>tokens\<close>.\<close>

definition setTokens :: "TokenData list \<Rightarrow> hook_state \<Rightarrow> hook_state" where
  "setTokens xs st = st\<lparr> tokens := xs, tokens_ref := Suc (tokens_ref st) \<rparr>"

definition buildApiParams :: "UseTokenDataProps \<Rightarrow> int \<Rightarrow> GetScannerResultParams" where
  "buildApiParams props pg =
     (case filters props of
        None \<Rightarrow>
          (let baseParams =
             (if tableType props = TrendingTable then TRENDING_TOKENS_FILTERS
              else NEW_TOKENS_FILTERS)
           in baseParams\<lparr> page := Some pg \<rparr>)
      | Some f \<Rightarrow>
          (let apiParams = buildApiParamsWithCombinedFilters f (tableType props) pg;
               apiParams1 = (case sortColumn props of
                               Some c \<Rightarrow> apiParams\<lparr> rankBy := Some c \<rparr>
                             | None \<Rightarrow> apiParams);
               apiParams2 = (case sortOrder props of
                               Some ob \<Rightarrow> apiParams1\<lparr> orderBy := Some ob \<rparr>
                             | None \<Rightarrow> apiParams1)
           in apiParams2))"

subsection \<open>loadData\<close>

text \<open>
  \<^verbatim>\<open>loadData\<close> up to its \<^verbatim>\<open>await\<close>: the loading flag is raised and the error cleared
  only when \<^verbatim>\<open>append\<close> is false; then the request is issued.
\<close>

definition loadData_start :: "UseTokenDataProps \<Rightarrow> int \<Rightarrow> bool \<Rightarrow> hook_state \<Rightarrow> hook_state" where
  "loadData_start props pg append_flag st =
     (let st1 = (if \<not> append_flag then st\<lparr> loading := True, error := None \<rparr> else st);
          rq = \<lparr> rq_page = pg, rq_append = append_flag, rq_params = buildApiParams props pg,
                 rq_filter = (case filters props of
                                None \<Rightarrow> None | Some f \<Rightarrow> combinedFilter f) \<rparr>
      in st1\<lparr> pending := pending st1 @ [rq] \<rparr>)"

text \<open>The continuation of \<^verbatim>\<open>loadData\<close> when the fetch of request \<open>rq\<close> succeeds.\<close>

definition loadData_resolve ::
  "js_env \<Rightarrow> history_gen \<Rightarrow> LoadRequest \<Rightarrow> ScannerApiResponse \<Rightarrow> hook_state \<Rightarrow> hook_state" where
  "loadData_resolve e gen rq response st =
     (let newTokens0 = map (scannerResultToToken e gen) (pairs response);
          newTokens = (case rq_filter rq of
                         Some _ \<Rightarrow> filterTokensByCombinedFilter e newTokens0 (rq_filter rq)
                       | None \<Rightarrow> newTokens0);
          st1 =
            (if rq_append rq then
               (let newMap = fold (\<lambda>t m. map_set (id_tk t) t m) newTokens (tokensMapRef st);
                    updatedTokens = map snd newMap
                in setTokens updatedTokens
                     (st\<lparr> tokensMapRef := newMap,
                         totalRows := totalRows_r response,
                         hasMore := (length (pairs response) > 0
                           \<and> num_lt (Num (real (length updatedTokens))) (totalRows_r response)) \<rparr>))
             else
               (let newMap = fold (\<lambda>t m. map_set (id_tk t) t m) newTokens []
                in setTokens newTokens
                     (st\<lparr> tokensMapRef := newMap,
                         totalRows := totalRows_r response,
                         hasMore := (length (pairs response) > 0
                           \<and> num_lt (Num (real (length newTokens))) (totalRows_r response)) \<rparr>)))
      in st1\<lparr> currentPage := rq_page rq, loading := False,
              pending := remove1 rq (pending st1) \<rparr>)"

text \<open>
  The continuation when the fetch is rejected; \<open>msg\<close> is the message of the error, or
  \<open>None\<close> when the rejection is not an \<^verbatim>\<open>Error\<close>.
\<close>

definition loadData_reject :: "LoadRequest \<Rightarrow> string option \<Rightarrow> hook_state \<Rightarrow> hook_state" where
  "loadData_reject rq msg st =
     st\<lparr> error := Some (case msg of Some m \<Rightarrow> m | None \<Rightarrow> ''Failed to load data''),
         loading := False, pending := remove1 rq (pending st) \<rparr>"

definition loadMore :: "UseTokenDataProps \<Rightarrow> hook_state \<Rightarrow> hook_state" where
  "loadMore props st =
     (if \<not> loading st \<and> hasMore st then loadData_start props (currentPage st + 1) True st
      else st)"

definition refreshData :: "UseTokenDataProps \<Rightarrow> hook_state \<Rightarrow> hook_state" where
  "refreshData props st = loadData_start props 1 False (st\<lparr> currentPage := 1 \<rparr>)"

subsection \<open>subscribeToTokens\<close>

definition chain_name :: "SupportedChainName \<Rightarrow> string" where
  "chain_name c = (case c of ETH \<Rightarrow> ''ETH'' | SOL \<Rightarrow> ''SOL'' | BASE \<Rightarrow> ''BASE'' | BSC \<Rightarrow> ''BSC'')"

text \<open>\<^verbatim>\<open>s.split('|')\<close> and the destructuring of its first three components.\<close>

fun split_bar :: "string \<Rightarrow> string list" where
  "split_bar [] = [[]]"
| "split_bar (c # cs) =
     (if c = CHR ''|'' then [] # split_bar cs
      else (case split_bar cs of w # ws \<Rightarrow> (c # w) # ws | [] \<Rightarrow> [[c]]))"

definition nth_opt :: "'a list \<Rightarrow> nat \<Rightarrow> 'a option" where
  "nth_opt xs i = (if i < length xs then Some (xs ! i) else None)"

definition subscriptionKey :: "TokenData \<Rightarrow> string" where
  "subscriptionKey t = pairAddress_tk t @ ''|'' @ tokenAddress t @ ''|'' @ chain_name (chain t)"

text \<open>\<^verbatim>\<open>wsService.send\<close>: the message goes out only while the socket is open.\<close>

definition send :: "OutgoingWebSocketMessage \<Rightarrow> hook_state \<Rightarrow> hook_state" where
  "send m st = (if ws_open st then st\<lparr> sent := sent st @ [m] \<rparr> else st)"

definition unsubscribeOne :: "string \<Rightarrow> hook_state \<Rightarrow> hook_state" where
  "unsubscribeOne subscription st =
     (let parts = split_bar subscription;
          pairAddress' = nth_opt parts 0;
          tokenAddress' = nth_opt parts 1;
          chain' = nth_opt parts 2
      in send (UnsubscribePairStats pairAddress' tokenAddress' chain')
           (send (UnsubscribePair pairAddress' tokenAddress' chain') st))"

definition subscribeOne :: "TokenData \<Rightarrow> hook_state \<Rightarrow> hook_state" where
  "subscribeOne t st =
     (let p = Some (pairAddress_tk t); a = Some (tokenAddress t); c = Some (chain_name (chain t));
          st1 = send (SubscribePairStats p a c) (send (SubscribePair p a c) st)
      in st1\<lparr> subscriptionsRef := set_add (subscriptionKey t) (subscriptionsRef st1) \<rparr>)"

definition subscribeToTokens :: "UseTokenDataProps \<Rightarrow> TokenData list \<Rightarrow> hook_state \<Rightarrow> hook_state" where
  "subscribeToTokens props tokensToSubscribe st =
     (if \<not> ws_open st then st
      else
        (let st1 = fold unsubscribeOne (subscriptionsRef st) st;
             st2 = st1\<lparr> subscriptionsRef := [] \<rparr>;
             st3 = fold subscribeOne tokensToSubscribe st2
         in send (ScannerFilter (buildApiParams props 1)) st3))"

text \<open>The effect that depends on \<^verbatim>\<open>tokens\<close>; it runs after \<^verbatim>\<open>tokens\<close> holds a new array.\<close>

definition tokensEffect :: "UseTokenDataProps \<Rightarrow> hook_state \<Rightarrow> hook_state" where
  "tokensEffect props st =
     (if length (tokens st) > 0 then subscribeToTokens props (tokens st) st else st)"

subsection \<open>handleWebSocketMessage\<close>

text \<open>
  The loop \<^verbatim>\<open>prev.map(...)\<close> shared by the tick and pair-stats cases, for a test
  \<open>matches\<close> and an update \<open>upd\<close>: the array it builds, the map after the
  \<^verbatim>\<open>tokensMapRef.current.set\<close> calls it makes on the way, and \<^verbatim>\<open>foundToken\<close>. The
  updater returns \<^verbatim>\<open>prev\<close> itself when nothing matched.
\<close>

definition patchTokens ::
  "(TokenData \<Rightarrow> bool) \<Rightarrow> (TokenData \<Rightarrow> TokenData) \<Rightarrow> hook_state \<Rightarrow> hook_state" where
  "patchTokens matches upd st =
     (let prev = tokens st;
          updatedTokens = map (\<lambda>token. if matches token then upd token else token) prev;
          newMap = fold (\<lambda>token m. if matches token then map_set (id_tk token) (upd token) m else m)
                     prev (tokensMapRef st);
          foundToken = list_ex matches prev;
          st1 = st\<lparr> tokensMapRef := newMap \<rparr>
      in if foundToken then setTokens updatedTokens st1 else st1)"

definition handleTick :: "js_env \<Rightarrow> TickEventPayload \<Rightarrow> hook_state \<Rightarrow> hook_state" where
  "handleTick e d st =
     (let nonOutliers = filter (\<lambda>swap. \<not> isOutlier swap) (swaps d) in
      if nonOutliers = [] then st
      else
        (let latestSwap = last nonOutliers;
             newPrice = parseFloat e (priceToken1Usd latestSwap);
             pairAddress' = pair_sub (pair_tick d)
         in patchTokens
              (\<lambda>token. pairAddress_tk token = pairAddress')
              (\<lambda>token. token\<lparr> priceUsd := newPrice,
                               mcap := num_mul (totalSupply token) newPrice,
                               lastUpdated := now e \<rparr>)
              st))"

definition handlePairStats :: "js_env \<Rightarrow> PairStatsMsgData \<Rightarrow> hook_state \<Rightarrow> hook_state" where
  "handlePairStats e d st =
     (let pairData = pair_stats d in
      patchTokens
        (\<lambda>token. pairAddress_tk token = pairAddress_pd pairData)
        (\<lambda>token. token\<lparr>
            migrationPc := Some (parseFloat e (migrationProgress_ps d)),
            audit := \<lparr> mintable = mintAuthorityRenounced pairData,
                       freezable = freezeAuthorityRenounced pairData,
                       honeypot = (case token1IsHoneypot pairData of
                                     Some b \<Rightarrow> \<not> b | None \<Rightarrow> True),
                       contractVerified_tk = isVerified_pd pairData \<rparr>,
            socialLinks := Some \<lparr> discord = str_or_undefined (linkDiscord pairData),
                                  telegram = str_or_undefined (linkTelegram pairData),
                                  twitter = str_or_undefined (linkTwitter pairData),
                                  website = str_or_undefined (linkWebsite pairData) \<rparr>,
            dexPaid_tk := Some (dexPaid_pd pairData),
            lastUpdated := now e \<rparr>)
        st)"

text \<open>
  The scanner-pairs case. For a token of the current array, \<open>replacement\<close> is the
  first incoming token with the same id when that one is strictly newer
  (\<^verbatim>\<open>!token.lastUpdated\<close> is false for every \<^verbatim>\<open>Date\<close>). The first loop replaces such
  tokens in place and stores them in the map; the second appends every incoming token
  whose id the map does not have. \<^verbatim>\<open>hasChanges\<close> records whether either loop did
  anything; if not, the updater returns \<^verbatim>\<open>prev\<close> itself.
\<close>

definition replacement :: "TokenData list \<Rightarrow> TokenData \<Rightarrow> TokenData option" where
  "replacement updatedTokens token =
     (case find (\<lambda>newToken. id_tk newToken = id_tk token) updatedTokens of
        None \<Rightarrow> None
      | Some newTokenData \<Rightarrow>
          if num_gt (lastUpdated newTokenData) (lastUpdated token) then Some newTokenData
          else None)"

definition updateExisting ::
  "TokenData list \<Rightarrow> TokenData list \<Rightarrow> (string \<times> TokenData) list
     \<Rightarrow> TokenData list \<times> (string \<times> TokenData) list \<times> bool" where
  "updateExisting updatedTokens prev m =
     (map (\<lambda>token. case replacement updatedTokens token of
                      Some n \<Rightarrow> n | None \<Rightarrow> token) prev,
      fold (\<lambda>token m'. case replacement updatedTokens token of
                          Some n \<Rightarrow> map_set (id_tk token) n m' | None \<Rightarrow> m') prev m,
      list_ex (\<lambda>token. replacement updatedTokens token \<noteq> None) prev)"

definition addNew ::
  "TokenData \<Rightarrow> TokenData list \<times> (string \<times> TokenData) list \<times> bool
     \<Rightarrow> TokenData list \<times> (string \<times> TokenData) list \<times> bool" where
  "addNew newToken acc =
     (case acc of (resultTokens, m, hasChanges) \<Rightarrow>
        if \<not> map_has m (id_tk newToken)
        then (resultTokens @ [newToken], map_set (id_tk newToken) newToken m, True)
        else (resultTokens, m, hasChanges))"

definition mergeScannerPairs :: "TokenData list \<Rightarrow> hook_state \<Rightarrow> hook_state" where
  "mergeScannerPairs updatedTokens st =
     (case fold addNew updatedTokens (updateExisting updatedTokens (tokens st) (tokensMapRef st)) of
        (resultTokens, newMap, hasChanges) \<Rightarrow>
          (let st1 = st\<lparr> tokensMapRef := newMap \<rparr>
           in if hasChanges then setTokens resultTokens st1 else st1))"

definition handleWebSocketMessage ::
  "js_env \<Rightarrow> history_gen \<Rightarrow> IncomingWebSocketMessage \<Rightarrow> hook_state \<Rightarrow> hook_state" where
  "handleWebSocketMessage e gen message st =
     (case message of
        Tick d \<Rightarrow> handleTick e d st
      | PairStats d \<Rightarrow> handlePairStats e d st
      | ScannerPairs d \<Rightarrow>
          mergeScannerPairs (map (scannerResultToToken e gen) (results_pairs d)) st)"

subsection \<open>The hook as a transition system\<close>

text \<open>
  The events a hook instance reacts to. A fetch can only settle while it is pending;
  messages are delivered once the hook has registered its callback. After an event that
  stored a new array in \<^verbatim>\<open>tokens\<close>, the effect depending on it runs.
\<close>

datatype event =
    LoadMore
  | RefreshData
  | FetchResolved LoadRequest ScannerApiResponse
  | FetchRejected LoadRequest "string option"
  | WsConnected
  | WsConnectFailed
  | Message IncomingWebSocketMessage

definition handle_event ::
  "UseTokenDataProps \<Rightarrow> js_env \<Rightarrow> history_gen \<Rightarrow> event \<Rightarrow> hook_state \<Rightarrow> hook_state" where
  "handle_event props e gen ev st =
     (case ev of
        LoadMore \<Rightarrow> loadMore props st
      | RefreshData \<Rightarrow> refreshData props st
      | FetchResolved rq response \<Rightarrow>
          if rq \<in> set (pending st) then loadData_resolve e gen rq response st else st
      | FetchRejected rq msg \<Rightarrow>
          if rq \<in> set (pending st) then loadData_reject rq msg st else st
      | WsConnected \<Rightarrow> st\<lparr> connected_st := True, ws_open := True \<rparr>
      | WsConnectFailed \<Rightarrow> st\<lparr> connected_st := False \<rparr>
      | Message m \<Rightarrow> if connected_st st then handleWebSocketMessage e gen m st else st)"

definition step ::
  "UseTokenDataProps \<Rightarrow> js_env \<Rightarrow> history_gen \<Rightarrow> event \<Rightarrow> hook_state \<Rightarrow> hook_state" where
  "step props e gen ev st =
     (let st1 = handle_event props e gen ev st
      in if tokens_ref st1 \<noteq> tokens_ref st then tokensEffect props st1 else st1)"

text \<open>The state after mounting: the first effect has called \<^verbatim>\<open>loadData(1, false)\<close>.\<close>

definition mounted :: "UseTokenDataProps \<Rightarrow> hook_state" where
  "mounted props = refreshData props initial_state"

definition run ::
  "UseTokenDataProps \<Rightarrow> js_env \<Rightarrow> history_gen \<Rightarrow> event list \<Rightarrow> hook_state \<Rightarrow> hook_state" where
  "run props e gen evs st = fold (step props e gen) evs st"

section \<open>Reference formulations and example data\<close>

text \<open>
  The market-cap policy in the words of the specification: the first strictly positive
  value of a priority list, and a fallback when there is none.
\<close>

definition firstPositive :: "number list \<Rightarrow> number \<Rightarrow> number" where
  "firstPositive vs fallback =
     (case find (\<lambda>v. num_gt v (Num 0)) vs of Some v \<Rightarrow> v | None \<Rightarrow> fallback)"

text \<open>\<^verbatim>\<open>a >= b\<close> on numbers.\<close>

fun num_ge :: "number \<Rightarrow> number \<Rightarrow> bool" where
  "num_ge (Num a) (Num b) = (a \<ge> b)"
| "num_ge _ _ = False"

text \<open>A token has a social link when any of its four optional links is a non-empty string.\<close>

definition anySocialLink :: "TokenData \<Rightarrow> bool" where
  "anySocialLink t =
     (case socialLinks t of
        None \<Rightarrow> False
      | Some l \<Rightarrow> str_truthy (discord l) \<or> str_truthy (telegram l)
                  \<or> str_truthy (twitter l) \<or> str_truthy (website l))"

text \<open>Example data: an environment, a raw record for a pair address, and its token.\<close>

definition example_env :: js_env where
  "example_env =
     \<lparr> parseFloat = (\<lambda>s. if s = ''0'' then Num 0
                         else if s = ''2.0'' then Num 2
                         else if s = ''85.5'' then Num 85.5
                         else if s = ''250000'' then Num 250000
                         else if s = ''500000'' then Num 500000
                         else if s = ''750000'' then Num 750000
                         else if s = ''1000000'' then Num 1000000
                         else NaN),
       dateOf = (\<lambda>s. Num 0),
       now = Num 5000 \<rparr>"

definition example_history :: history_gen where
  "example_history p d = []"

definition example_result :: "string \<Rightarrow> ScannerResult" where
  "example_result a =
     \<lparr> age = ''1970-01-01T00:00:00Z'', buys = Some (Num 15), chainId = 1,
       contractVerified = True, currentMcap = Some ''0'', dexPaid = True,
       diff1H = Some ''0'', diff24H = Some ''0'', diff5M = Some ''2.0'', diff6H = Some ''0'',
       discordLink = None, honeyPot = Some False, initialMcap = Some ''500000'',
       isFreezeAuthDisabled = True, isMintAuthDisabled = True,
       liquidity = Some ''250000'', virtualRouterType = Some ''Uniswap'',
       migrationProgress = None, pairAddress = a, pairMcapUsd = Some ''750000'',
       pairMcapUsdInitial = Some ''250000'', percentChangeInLiquidity = Some ''0'',
       price = Some ''2.0'', sells = Some (Num 8), telegramLink = None,
       token1Address = ''t'' @ a, token1Name = Some ''Test Token'',
       token1Symbol = Some ''TEST'', token1TotalSupplyFormatted = Some ''1000000'',
       twitterLink = Some ''https://twitter.com/test'', volume = Some ''750000'',
       webLink = None \<rparr>"

definition example_token :: "string \<Rightarrow> TokenData" where
  "example_token a = scannerResultToToken example_env example_history (example_result a)"

text \<open>
  The same environment a thousand hours later; a token whose only link is a Discord
  link; a token with every risk factor.
\<close>

definition later_env :: js_env where
  "later_env = example_env\<lparr> now := Num (1000 * 60 * 60 * 1000) \<rparr>"

definition discord_only_token :: TokenData where
  "discord_only_token =
     (example_token ''A'')\<lparr> socialLinks :=
        Some \<lparr> discord = Some ''https://discord.gg/test'', telegram = None,
               twitter = None, website = None \<rparr> \<rparr>"

definition all_risk_token :: TokenData where
  "all_risk_token =
     (example_token ''A'')\<lparr>
        audit := \<lparr> mintable = True, freezable = True, honeypot = True,
                   contractVerified_tk = False \<rparr>,
        liquidity_tk := \<lparr> current = Num 1000, changePc = Num 0 \<rparr>,
        volumeUsd := Num 500,
        socialLinks := None \<rparr>"

text \<open>
  The representation invariant of the canonical set: the array and the map hold the
  same ids, and every map entry is stored under the id of its token.
\<close>

definition consistent :: "hook_state \<Rightarrow> bool" where
  "consistent st =
     (set (map id_tk (tokens st)) = set (map fst (tokensMapRef st))
      \<and> list_all (\<lambda>(k, v). id_tk v = k) (tokensMapRef st))"

text \<open>The messages \<^verbatim>\<open>subscribeToTokens\<close> sends for one stored key and for one token.\<close>

definition unsubscribeMessages :: "string \<Rightarrow> OutgoingWebSocketMessage list" where
  "unsubscribeMessages k =
     [UnsubscribePair (nth_opt (split_bar k) 0) (nth_opt (split_bar k) 1) (nth_opt (split_bar k) 2),
      UnsubscribePairStats (nth_opt (split_bar k) 0) (nth_opt (split_bar k) 1)
        (nth_opt (split_bar k) 2)]"

definition subscribeMessages :: "TokenData \<Rightarrow> OutgoingWebSocketMessage list" where
  "subscribeMessages t =
     [SubscribePair (Some (pairAddress_tk t)) (Some (tokenAddress t)) (Some (chain_name (chain t))),
      SubscribePairStats (Some (pairAddress_tk t)) (Some (tokenAddress t))
        (Some (chain_name (chain t)))]"

text \<open>
  An example run: a trending table without filters is mounted, the socket connects, and
  the first page arrives with two records out of five.
\<close>

definition example_props :: UseTokenDataProps where
  "example_props =
     \<lparr> tableType = TrendingTable, filters = None, sortColumn = None, sortOrder = None \<rparr>"

definition first_request :: LoadRequest where
  "first_request =
     \<lparr> rq_page = 1, rq_append = False, rq_params = buildApiParams example_props 1,
       rq_filter = None \<rparr>"

definition second_request :: LoadRequest where
  "second_request =
     \<lparr> rq_page = 2, rq_append = True, rq_params = buildApiParams example_props 2,
       rq_filter = None \<rparr>"

definition example_response :: ScannerApiResponse where
  "example_response =
     \<lparr> pairs = [example_result ''A'', example_result ''B''], totalRows_r = Num 5 \<rparr>"

definition ready_state :: hook_state where
  "ready_state =
     run example_props example_env example_history
       [WsConnected, FetchResolved first_request example_response] (mounted example_props)"



definition unknown_tick :: TickEventPayload where
  "unknown_tick =
     \<lparr> pair_tick = \<lparr> pair_sub = ''Z'', token_sub = ''tZ'', chain_sub = ETH \<rparr>,
       swaps = [\<lparr> priceToken1Usd = ''85.5'', isOutlier = False \<rparr>] \<rparr>"

definition example_stats :: "string \<Rightarrow> PairStatsMsgData" where
  "example_stats a =
     \<lparr> pair_stats =
         \<lparr> pairAddress_pd = a, mintAuthorityRenounced = True,
           freezeAuthorityRenounced = False, token1IsHoneypot = Some False,
           isVerified_pd = True, linkDiscord = None, linkTelegram = None,
           linkTwitter = Some ''https://twitter.com/updated'', linkWebsite = None,
           dexPaid_pd = False \<rparr>,
       migrationProgress_ps = ''85.5'' \<rparr>"

definition example_batch :: ScannerPairsEventPayload where
  "example_batch =
     \<lparr> filter_sp = buildApiParams example_props 1,
       results_pairs = [example_result ''A'', example_result ''C''] \<rparr>"

text \<open>The token of a raw example record when it is normalized a thousand hours later.\<close>

definition later_token :: "string \<Rightarrow> TokenData" where
  "later_token a = scannerResultToToken later_env example_history (example_result a)"

text \<open>The ready state after a full-dataset batch that arrives a thousand hours later.\<close>

definition after_batch :: hook_state where
  "after_batch =
     step example_props later_env example_history (Message (ScannerPairs example_batch))
       ready_state"

text \<open>
  A second run: while the first request is still pending the filters change, a newer
  request starts and is answered first; the answer to the first request arrives last.
\<close>

definition filtered_props :: UseTokenDataProps where
  "filtered_props =
     example_props\<lparr> filters := Some \<lparr> chains = [SOL], minVolume = None, maxAge_f = None,
       minMarketCap = None, excludeHoneypots = True, combinedFilter = None \<rparr> \<rparr>"

definition newer_request :: LoadRequest where
  "newer_request =
     \<lparr> rq_page = 1, rq_append = False, rq_params = buildApiParams filtered_props 1,
       rq_filter = None \<rparr>"






section \<open>Supporting lemmas\<close>

subsection \<open>Maps, sets and the merge of a batch\<close>

















subsection \<open>Subscriptions\<close>

lemma set_fold_set_add: "set (fold set_add ks s) = set s \<union> set ks"
  by (induction ks arbitrary: s) (auto simp: set_add_def)

lemma distinct_fold_set_add: "distinct s \<Longrightarrow> distinct (fold set_add ks s)"
  by (induction ks arbitrary: s) (auto simp: set_add_def)

lemma unsubscribeOne_open:
  "ws_open st \<Longrightarrow> unsubscribeOne k st = st\<lparr> sent := sent st @ unsubscribeMessages k \<rparr>"
  by (simp add: unsubscribeOne_def send_def unsubscribeMessages_def Let_def)

lemma subscribeOne_open:
  "ws_open st \<Longrightarrow>
   subscribeOne t st = st\<lparr> sent := sent st @ subscribeMessages t,
                           subscriptionsRef := set_add (subscriptionKey t) (subscriptionsRef st) \<rparr>"
  by (simp add: subscribeOne_def send_def subscribeMessages_def Let_def)

lemma fold_unsubscribeOne:
  "ws_open st \<Longrightarrow>
   fold unsubscribeOne ks st = st\<lparr> sent := sent st @ concat (map unsubscribeMessages ks) \<rparr>"
proof (induction ks arbitrary: st)
  case Nil
  show ?case by simp
next
  case (Cons k ks)
  have o: "ws_open (st\<lparr> sent := sent st @ unsubscribeMessages k \<rparr>)" using Cons.prems by simp
  show ?case
    using Cons.IH [OF o] Cons.prems by (simp add: unsubscribeOne_open)
qed

lemma fold_subscribeOne:
  "ws_open st \<Longrightarrow>
   fold subscribeOne ts st =
     st\<lparr> sent := sent st @ concat (map subscribeMessages ts),
         subscriptionsRef := fold set_add (map subscriptionKey ts) (subscriptionsRef st) \<rparr>"
proof (induction ts arbitrary: st)
  case Nil
  show ?case by simp
next
  case (Cons t ts)
  have o: "ws_open (st\<lparr> sent := sent st @ subscribeMessages t,
             subscriptionsRef := set_add (subscriptionKey t) (subscriptionsRef st) \<rparr>)"
    using Cons.prems by simp
  show ?case
    using Cons.IH [OF o] Cons.prems by (simp add: subscribeOne_open)
qed

lemma subscribeToTokens_open:
  "ws_open st \<Longrightarrow>
   subscribeToTokens props ts st =
     st\<lparr> sent := sent st @ concat (map unsubscribeMessages (subscriptionsRef st))
                   @ concat (map subscribeMessages ts)
                   @ [ScannerFilter (buildApiParams props 1)],
         subscriptionsRef := fold set_add (map subscriptionKey ts) [] \<rparr>"
  by (simp add: subscribeToTokens_def Let_def fold_unsubscribeOne fold_subscribeOne send_def)




subsection \<open>Snapshot responses, patches and the invariant\<close>

lemma filter_none [simp]: "filterTokensByCombinedFilter e ts None = ts"
  by (simp add: filterTokensByCombinedFilter_def)

lemma newTokens_filtered:
  "(case rq_filter rq of
      Some _ \<Rightarrow> filterTokensByCombinedFilter e ts (rq_filter rq)
    | None \<Rightarrow> ts) = filterTokensByCombinedFilter e ts (rq_filter rq)"
  by (cases "rq_filter rq") simp_all

lemma loadData_resolve_fresh:
  "\<not> rq_append rq \<Longrightarrow>
   loadData_resolve e gen rq response st =
     (let newTokens = filterTokensByCombinedFilter e
                        (map (scannerResultToToken e gen) (pairs response)) (rq_filter rq)
      in st\<lparr> tokens := newTokens, tokens_ref := Suc (tokens_ref st),
             tokensMapRef := fold (\<lambda>t m. map_set (id_tk t) t m) newTokens [],
             totalRows := totalRows_r response,
             hasMore := (length (pairs response) > 0
                          \<and> num_lt (Num (real (length newTokens))) (totalRows_r response)),
             currentPage := rq_page rq, loading := False,
             pending := remove1 rq (pending st) \<rparr>)"
  by (simp add: loadData_resolve_def Let_def setTokens_def newTokens_filtered)













lemma patchTokens_fields:
  "tokens (patchTokens matches upd st)
     = map (\<lambda>token. if matches token then upd token else token) (tokens st)
   \<and> tokensMapRef (patchTokens matches upd st)
     = fold (\<lambda>token m. if matches token then map_set (id_tk token) (upd token) m else m)
         (tokens st) (tokensMapRef st)"
proof (cases "list_ex matches (tokens st)")
  case True
  then show ?thesis by (simp add: patchTokens_def Let_def setTokens_def)
next
  case False
  then have "map (\<lambda>token. if matches token then upd token else token) (tokens st) = tokens st"
    by (induction "tokens st") (auto simp: list_ex_iff intro: map_idI)
  with False show ?thesis by (simp add: patchTokens_def Let_def)
qed




lemma consistent_frame:
  "tokens st' = tokens st \<Longrightarrow> tokensMapRef st' = tokensMapRef st \<Longrightarrow>
   consistent st' = consistent st"
  by (simp add: consistent_def)





subsection \<open>Risk factors\<close>

lemma ageFactor_nonneg: "0 \<le> ageFactor e t"
  by (simp add: ageFactor_def)

lemma liquidityFactor_nonneg: "0 \<le> liquidityFactor t"
  by (simp add: liquidityFactor_def)

lemma volumeFactor_nonneg: "0 \<le> volumeFactor t"
  by (simp add: volumeFactor_def)

lemma num_ge_not_lt: "num_ge a (Num b) \<Longrightarrow> c \<le> b \<Longrightarrow> \<not> num_lt a (Num c)"
  by (cases a) auto

subsection \<open>Patches that match nothing\<close>

lemma fold_patch_no_match:
  "\<not> list_ex matches xs \<Longrightarrow>
   fold (\<lambda>token m. if matches token then map_set (id_tk token) (upd token) m else m) xs m = m"
  by (induction xs arbitrary: m) auto

lemma patchTokens_no_match:
  "\<not> list_ex matches (tokens st) \<Longrightarrow> patchTokens matches upd st = st"
  by (simp add: patchTokens_def Let_def fold_patch_no_match)

subsection \<open>The example run\<close>

lemmas ex_defs = example_token_def scannerResultToToken_def calculateMarketCap_def
  safeParseFloat_def example_env_def example_result_def example_history_def num_gt_def
  chainIdToName_def Let_def

lemma example_token_fields:
  "id_tk (example_token a) = a" "pairAddress_tk (example_token a) = a"
  "tokenAddress (example_token a) = ''t'' @ a" "chain (example_token a) = ETH"
  "lastUpdated (example_token a) = Num 5000" "totalSupply (example_token a) = Num 1000000"
  "priceUsd (example_token a) = Num 2"
  by (simp_all add: ex_defs)

lemma later_token_fields:
  "id_tk (later_token a) = a" "pairAddress_tk (later_token a) = a"
  "tokenAddress (later_token a) = ''t'' @ a" "chain (later_token a) = ETH"
  "lastUpdated (later_token a) = Num 3600000000"
  by (simp_all add: later_token_def later_env_def ex_defs)

lemma normalize_example:
  "scannerResultToToken example_env example_history (example_result a) = example_token a"
  "scannerResultToToken later_env example_history (example_result a) = later_token a"
  by (simp_all add: example_token_def later_token_def)

lemma example_props_fields:
  "filters example_props = None" "tableType example_props = TrendingTable"
  by (simp_all add: example_props_def)

lemma request_fields:
  "rq_append first_request = False" "rq_page first_request = 1" "rq_filter first_request = None"
  "rq_append second_request = True" "rq_page second_request = 2" "rq_filter second_request = None"
  "rq_append newer_request = False" "rq_page newer_request = 1" "rq_filter newer_request = None"
  by (simp_all add: first_request_def second_request_def newer_request_def)

lemma mounted_example: "mounted example_props = initial_state\<lparr> pending := [first_request] \<rparr>"
  by (simp add: mounted_def refreshData_def loadData_start_def initial_state_def
        first_request_def example_props_fields Let_def)

lemma connected_example:
  "step example_props example_env example_history WsConnected (mounted example_props)
     = initial_state\<lparr> pending := [first_request], connected_st := True, ws_open := True \<rparr>"
  by (simp add: step_def handle_event_def mounted_example initial_state_def Let_def)

lemma ready_state_eq:
  "ready_state =
     \<lparr> tokens = [example_token ''A'', example_token ''B''], tokens_ref = 1, loading = False,
       error = None, totalRows = Num 5, connected_st = True, currentPage = 1, hasMore = True,
       subscriptionsRef = [''A|tA|ETH'', ''B|tB|ETH''],
       tokensMapRef = [(''A'', example_token ''A''), (''B'', example_token ''B'')],
       pending = [],
       sent = [SubscribePair (Some ''A'') (Some ''tA'') (Some ''ETH''),
               SubscribePairStats (Some ''A'') (Some ''tA'') (Some ''ETH''),
               SubscribePair (Some ''B'') (Some ''tB'') (Some ''ETH''),
               SubscribePairStats (Some ''B'') (Some ''tB'') (Some ''ETH''),
               ScannerFilter (buildApiParams example_props 1)],
       ws_open = True \<rparr>"
proof -
  have "ready_state =
          step example_props example_env example_history
            (FetchResolved first_request example_response)
            (step example_props example_env example_history WsConnected (mounted example_props))"
    by (simp add: ready_state_def run_def)
  also have "\<dots> = step example_props example_env example_history
            (FetchResolved first_request example_response)
            (initial_state\<lparr> pending := [first_request], connected_st := True, ws_open := True \<rparr>)"
    by (simp only: connected_example)
  also have "\<dots> = tokensEffect example_props
      (loadData_resolve example_env example_history first_request example_response
         (initial_state\<lparr> pending := [first_request], connected_st := True, ws_open := True \<rparr>))"
    by (simp add: step_def handle_event_def Let_def loadData_resolve_fresh request_fields)
  finally show ?thesis
    by (simp add: loadData_resolve_fresh request_fields example_response_def normalize_example
          Let_def initial_state_def map_set_def example_token_fields tokensEffect_def
          subscribeToTokens_open subscribeMessages_def unsubscribeMessages_def set_add_def
          subscriptionKey_def chain_name_def)
qed


lemma loadMore_ready:
  "step example_props example_env example_history LoadMore ready_state
     = ready_state\<lparr> pending := [second_request] \<rparr>"
  by (simp add: step_def handle_event_def loadMore_def loadData_start_def Let_def
        ready_state_eq second_request_def example_props_fields)




lemma split_keys:
  "split_bar ''A|tA|ETH'' = [''A'', ''tA'', ''ETH'']"
  "split_bar ''B|tB|ETH'' = [''B'', ''tB'', ''ETH'']"
  by simp_all

lemma merge_example:
  "mergeScannerPairs [later_token ''A'', later_token ''C''] ready_state =
     ready_state\<lparr> tokens := [later_token ''A'', example_token ''B'', later_token ''C''],
       tokens_ref := 2,
       tokensMapRef := [(''A'', later_token ''A''), (''B'', example_token ''B''),
                        (''C'', later_token ''C'')] \<rparr>"
  by (simp add: mergeScannerPairs_def updateExisting_def replacement_def addNew_def
        map_has_def map_set_def setTokens_def ready_state_eq example_token_fields
        later_token_fields num_gt_def)

section \<open>Verified properties\<close>

subsection \<open>Market-cap derivation\<close>

text \<open>
  C8. The market cap of a raw record is the first strictly positive value among the
  parsed current, initial, pair and pair-initial market caps, in that order, and the
  product of parsed total supply and parsed price when none is positive. In particular
  a current value of 0 and an initial value of 500000 give 500000, whatever the later
  fields hold.
\<close>

theorem calculateMarketCap_priority:
  "calculateMarketCap e r =
     firstPositive
       [safeParseFloat e (currentMcap r) (Num 0), safeParseFloat e (initialMcap r) (Num 0),
        safeParseFloat e (pairMcapUsd r) (Num 0), safeParseFloat e (pairMcapUsdInitial r) (Num 0)]
       (num_mul (safeParseFloat e (token1TotalSupplyFormatted r) (Num 0))
                (safeParseFloat e (price r) (Num 0)))
   \<and> (safeParseFloat e (currentMcap r) (Num 0) = Num 0
        \<and> safeParseFloat e (initialMcap r) (Num 0) = Num 500000
      \<longrightarrow> calculateMarketCap e r = Num 500000)"
  by (simp add: calculateMarketCap_def firstPositive_def Let_def num_gt_def)

theorem calculateMarketCap_priority_witness:
  "safeParseFloat example_env (currentMcap (example_result ''A'')) (Num 0) = Num 0
   \<and> safeParseFloat example_env (initialMcap (example_result ''A'')) (Num 0) = Num 500000
   \<and> pairMcapUsd (example_result ''A'') = Some ''750000''
   \<and> calculateMarketCap example_env (example_result ''A'') = Num 500000"
  using calculateMarketCap_priority [of example_env "example_result ''A''"]
  by (simp add: safeParseFloat_def example_env_def example_result_def firstPositive_def
        num_gt_def)

subsection \<open>Strategy presets\<close>

text \<open>
  C4. Merging a preset into request parameters leaves the page and the chain of the
  base parameters as the caller supplied them, for every preset name (and for no
  preset at all).
\<close>

theorem preset_keeps_page_and_chain:
  "page (applyCombinedFilterToParams baseParams t) = page baseParams
   \<and> chain_q (applyCombinedFilterToParams baseParams t) = chain_q baseParams"
  by (simp add: applyCombinedFilterToParams_def Let_def split: option.splits)

theorem preset_keeps_page_and_chain_witness:
  "page (applyCombinedFilterToParams (no_params\<lparr> page := Some 3, chain_q := Some SOL \<rparr>)
           (Some Hodl)) = Some 3
   \<and> chain_q (applyCombinedFilterToParams (no_params\<lparr> page := Some 3, chain_q := Some SOL \<rparr>)
           (Some Hodl)) = Some SOL
   \<and> rankBy (applyCombinedFilterToParams (no_params\<lparr> page := Some 3, chain_q := Some SOL \<rparr>)
           (Some Hodl)) = Some Mcap"
  using preset_keeps_page_and_chain
          [of "no_params\<lparr> page := Some 3, chain_q := Some SOL \<rparr>" "Some Hodl"]
  by (simp add: applyCombinedFilterToParams_def getCombinedFilterConfig_def
        COMBINED_FILTER_PRESETS_def no_params_def spread_def Let_def)

subsection \<open>Risk score\<close>

text \<open>
  C7, as the code has it. The risk score lies between 0 and 100. A token with every
  risk factor (age under one hour, liquidity ratio under 0.05, honeypot, mintable,
  freezable, unverified, volume under 1000, no social link at all) scores 100. A token
  with none of them scores 0, where having a social link means having a Twitter,
  Telegram or website link: the Discord link is not counted.
\<close>

theorem riskScore_bounds:
  "0 \<le> calculateRiskScore e t \<and> calculateRiskScore e t \<le> 100
   \<and> (num_lt (ageInHours e t) (Num 1) \<and> num_lt (liquidityRatio t) (Num 0.05)
        \<and> honeypot (audit t) \<and> mintable (audit t) \<and> freezable (audit t)
        \<and> \<not> contractVerified_tk (audit t) \<and> num_lt (volumeUsd t) (Num 1000)
        \<and> \<not> anySocialLink t
      \<longrightarrow> calculateRiskScore e t = 100)
   \<and> (num_ge (ageInHours e t) (Num 720) \<and> num_ge (liquidityRatio t) (Num 0.2)
        \<and> \<not> honeypot (audit t) \<and> \<not> mintable (audit t) \<and> \<not> freezable (audit t)
        \<and> contractVerified_tk (audit t) \<and> num_ge (volumeUsd t) (Num 10000)
        \<and> hasLinks t
      \<longrightarrow> calculateRiskScore e t = 0)"
proof -
  have b: "0 \<le> calculateRiskScore e t \<and> calculateRiskScore e t \<le> 100"
    by (simp add: calculateRiskScore_def Let_def)
  have r: "calculateRiskScore e t = 100"
    if "honeypot (audit t)" "mintable (audit t)" "freezable (audit t)"
       "\<not> contractVerified_tk (audit t)"
  proof -
    have "auditFactor t = 110" using that by (simp add: auditFactor_def)
    then have "100 \<le> 0 + ageFactor e t + liquidityFactor t + auditFactor t + volumeFactor t
                 + (if \<not> hasLinks t then 15 else 0)"
      using ageFactor_nonneg [of e t] liquidityFactor_nonneg [of t] volumeFactor_nonneg [of t]
      by simp
    then show ?thesis by (simp add: calculateRiskScore_def Let_def)
  qed
  have c: "calculateRiskScore e t = 0"
    if a: "num_ge (ageInHours e t) (Num 720)" and l: "num_ge (liquidityRatio t) (Num 0.2)"
       and au: "\<not> honeypot (audit t)" "\<not> mintable (audit t)" "\<not> freezable (audit t)"
               "contractVerified_tk (audit t)"
       and v: "num_ge (volumeUsd t) (Num 10000)" and h: "hasLinks t"
  proof -
    have "ageFactor e t = 0"
      using a num_ge_not_lt [of "ageInHours e t" 720] by (simp add: ageFactor_def)
    moreover have "liquidityFactor t = 0"
      using l num_ge_not_lt [of "liquidityRatio t" "0.2"] by (simp add: liquidityFactor_def)
    moreover have "auditFactor t = 0" using au by (simp add: auditFactor_def)
    moreover have "volumeFactor t = 0"
      using v num_ge_not_lt [of "volumeUsd t" 10000] by (simp add: volumeFactor_def)
    ultimately show ?thesis using h by (simp add: calculateRiskScore_def Let_def)
  qed
  show ?thesis using b r c by blast
qed

theorem riskScore_bounds_witness:
  "num_lt (ageInHours example_env all_risk_token) (Num 1)
   \<and> num_lt (liquidityRatio all_risk_token) (Num 0.05)
   \<and> num_lt (volumeUsd all_risk_token) (Num 1000)
   \<and> \<not> anySocialLink all_risk_token
   \<and> calculateRiskScore example_env all_risk_token = 100
   \<and> num_ge (ageInHours later_env (example_token ''A'')) (Num 720)
   \<and> num_ge (liquidityRatio (example_token ''A'')) (Num 0.2)
   \<and> num_ge (volumeUsd (example_token ''A'')) (Num 10000)
   \<and> hasLinks (example_token ''A'')
   \<and> calculateRiskScore later_env (example_token ''A'') = 0"
  using riskScore_bounds [of example_env all_risk_token]
        riskScore_bounds [of later_env "example_token ''A''"]
  by (simp add: all_risk_token_def later_env_def ageInHours_def liquidityRatio_def
        anySocialLink_def hasLinks_def ex_defs)

text \<open>
  As stated, with any social link counting, the all-clear case fails: a token whose
  only link is a Discord link, and which has no other risk factor, scores 15.
\<close>

theorem riskScore_discord_only_counterexample:
  "num_ge (ageInHours later_env discord_only_token) (Num 720)
   \<and> num_ge (liquidityRatio discord_only_token) (Num 0.2)
   \<and> \<not> honeypot (audit discord_only_token) \<and> \<not> mintable (audit discord_only_token)
   \<and> \<not> freezable (audit discord_only_token) \<and> contractVerified_tk (audit discord_only_token)
   \<and> num_ge (volumeUsd discord_only_token) (Num 10000)
   \<and> anySocialLink discord_only_token
   \<and> calculateRiskScore later_env discord_only_token = 15"
  by (simp add: discord_only_token_def later_env_def ageInHours_def liquidityRatio_def
        anySocialLink_def hasLinks_def calculateRiskScore_def ageFactor_def
        liquidityFactor_def auditFactor_def volumeFactor_def ex_defs)

subsection \<open>Real-time patches\<close>



text \<open>
  C3. A tick or a pair-stats event whose pair address matches no token leaves the whole
  state as it was: the same array object (\<open>tokens_ref\<close> included), the same map.
\<close>

theorem unknown_pair_is_noop:
  "\<forall>t \<in> set (tokens st). pairAddress_tk t \<noteq> pair_sub (pair_tick d) \<Longrightarrow>
   \<forall>t \<in> set (tokens st). pairAddress_tk t \<noteq> pairAddress_pd (pair_stats d') \<Longrightarrow>
   handleWebSocketMessage e gen (Tick d) st = st
   \<and> handleWebSocketMessage e gen (PairStats d') st = st"
  by (simp add: handleWebSocketMessage_def handleTick_def handlePairStats_def Let_def
        patchTokens_no_match list_ex_iff)

theorem unknown_pair_is_noop_witness:
  "map pairAddress_tk (tokens ready_state) = [''A'', ''B'']
   \<and> pair_sub (pair_tick unknown_tick) = ''Z''
   \<and> pairAddress_pd (pair_stats (example_stats ''Z'')) = ''Z''
   \<and> handleWebSocketMessage example_env example_history (Tick unknown_tick) ready_state
       = ready_state
   \<and> handleWebSocketMessage example_env example_history (PairStats (example_stats ''Z''))
       ready_state = ready_state"
proof -
  have r: "tokens ready_state = [example_token ''A'', example_token ''B'']"
    by (simp add: ready_state_eq)
  have a: "\<forall>t \<in> set (tokens ready_state). pairAddress_tk t \<noteq> pair_sub (pair_tick unknown_tick)"
    by (simp add: r unknown_tick_def example_token_fields)
  have b: "\<forall>t \<in> set (tokens ready_state).
         pairAddress_tk t \<noteq> pairAddress_pd (pair_stats (example_stats ''Z''))"
    by (simp add: r example_stats_def example_token_fields)
  have c: "map pairAddress_tk (tokens ready_state) = [''A'', ''B'']
           \<and> pair_sub (pair_tick unknown_tick) = ''Z''
           \<and> pairAddress_pd (pair_stats (example_stats ''Z'')) = ''Z''"
    by (simp add: r unknown_tick_def example_stats_def example_token_fields)
  from unknown_pair_is_noop [OF a b, of example_env example_history] c
  show ?thesis by blast
qed

text \<open>
  C10. A pair-stats patch sets, on every matching token, mintable to the patch's
  mintAuthorityRenounced, freezable to its freezeAuthorityRenounced, honeypot to the
  negation of its token1IsHoneypot (true when that flag is absent) and contractVerified
  to its isVerified. The normalizer has the opposite polarity: mintable and freezable
  are the negations of isMintAuthDisabled and isFreezeAuthDisabled, and honeypot is the
  raw honeyPot flag (false when absent).
\<close>

theorem pair_stats_audit_polarity:
  "(i < length (tokens st) \<and> pairAddress_tk (tokens st ! i) = pairAddress_pd (pair_stats d)
     \<longrightarrow> audit (tokens (handleWebSocketMessage e gen (PairStats d) st) ! i)
          = \<lparr> mintable = mintAuthorityRenounced (pair_stats d),
              freezable = freezeAuthorityRenounced (pair_stats d),
              honeypot = (token1IsHoneypot (pair_stats d) \<noteq> Some True),
              contractVerified_tk = isVerified_pd (pair_stats d) \<rparr>)
   \<and> audit (scannerResultToToken e gen r)
       = \<lparr> mintable = (\<not> isMintAuthDisabled r),
           freezable = (\<not> isFreezeAuthDisabled r),
           honeypot = (honeyPot r = Some True),
           contractVerified_tk = contractVerified r \<rparr>"
  by (auto simp: handleWebSocketMessage_def handlePairStats_def Let_def patchTokens_fields
        scannerResultToToken_def split: option.splits)

theorem pair_stats_audit_polarity_witness:
  "pairAddress_tk (tokens ready_state ! 0) = pairAddress_pd (pair_stats (example_stats ''A''))
   \<and> audit (tokens (handleWebSocketMessage example_env example_history
                      (PairStats (example_stats ''A'')) ready_state) ! 0)
       = \<lparr> mintable = True, freezable = False, honeypot = True, contractVerified_tk = True \<rparr>
   \<and> audit (scannerResultToToken example_env example_history (example_result ''A''))
       = \<lparr> mintable = False, freezable = False, honeypot = False, contractVerified_tk = True \<rparr>"
proof -
  have r: "tokens ready_state = [example_token ''A'', example_token ''B'']"
    by (simp add: ready_state_eq)
  have a: "0 < length (tokens ready_state)
           \<and> pairAddress_tk (tokens ready_state ! 0)
               = pairAddress_pd (pair_stats (example_stats ''A''))"
    by (simp add: r example_stats_def example_token_fields)
  from pair_stats_audit_polarity [of 0 ready_state "example_stats ''A''" example_env
         example_history "example_result ''A''"] a
  show ?thesis by (simp add: example_stats_def example_result_def)
qed

subsection \<open>Full-dataset patch\<close>



subsection \<open>Pagination and snapshot responses\<close>

text \<open>
  C5, as the code has it. While the loading flag is set, or while hasMore is false,
  load-more changes nothing and issues no fetch.
\<close>

theorem loadMore_guard:
  "loading st \<or> \<not> hasMore st \<Longrightarrow>
   step props e gen LoadMore st = st \<and> pending (step props e gen LoadMore st) = pending st"
  by (auto simp: step_def handle_event_def loadMore_def Let_def)

theorem loadMore_guard_witness:
  "loading (mounted example_props)
   \<and> step example_props example_env example_history LoadMore (mounted example_props)
       = mounted example_props
   \<and> pending (step example_props example_env example_history LoadMore (mounted example_props))
       = [first_request]"
proof -
  have l: "loading (mounted example_props)" by (simp add: mounted_example initial_state_def)
  have p: "pending (mounted example_props) = [first_request]" by (simp add: mounted_example)
  from loadMore_guard [of "mounted example_props" example_props example_env example_history] l p
  show ?thesis by simp
qed

text \<open>
  As stated, the claim fails: load-more with append does not raise the loading flag, so
  a second load-more while the first is in flight issues a second fetch, and two
  requests for page 2 are outstanding.
\<close>

theorem loadMore_twice_counterexample:
  "pending ready_state = [] \<and> \<not> loading ready_state \<and> hasMore ready_state
   \<and> pending (step example_props example_env example_history LoadMore ready_state)
       = [second_request]
   \<and> pending (step example_props example_env example_history LoadMore
                (step example_props example_env example_history LoadMore ready_state))
       = [second_request, second_request]"
  by (simp add: loadMore_ready)
     (simp add: step_def handle_event_def loadMore_def loadData_start_def Let_def
        ready_state_eq second_request_def example_props_fields)




subsection \<open>Subscriptions\<close>

text \<open>
  C9, as the code has it. When the effect on the token array runs with a non-empty
  array and an open socket, the messages sent are, in order: the two unsubscribe
  messages of every key subscribed before, whether or not its token is still listed;
  the two subscribe messages of every listed token; one scanner-filter subscription
  with the current parameters for page 1. Afterwards the subscribed keys are exactly
  the keys of the listed tokens.
\<close>

theorem resubscribes_everything:
  "ws_open st \<Longrightarrow> tokens st \<noteq> [] \<Longrightarrow>
   sent (tokensEffect props st) =
     sent st @ concat (map unsubscribeMessages (subscriptionsRef st))
       @ concat (map subscribeMessages (tokens st))
       @ [ScannerFilter (buildApiParams props 1)]
   \<and> set (subscriptionsRef (tokensEffect props st)) = subscriptionKey ` set (tokens st)
   \<and> distinct (subscriptionsRef (tokensEffect props st))"
  by (simp add: tokensEffect_def subscribeToTokens_open set_fold_set_add distinct_fold_set_add)

theorem resubscribes_everything_witness:
  "ws_open ready_state \<and> tokens ready_state \<noteq> []
   \<and> set (subscriptionsRef (tokensEffect example_props ready_state))
       = {''A|tA|ETH'', ''B|tB|ETH''}
   \<and> length (sent (tokensEffect example_props ready_state)) = length (sent ready_state) + 9"
proof -
  have a: "ws_open ready_state" and b: "tokens ready_state \<noteq> []"
    by (simp_all add: ready_state_eq)
  from resubscribes_everything [OF a b, of example_props] a b
  show ?thesis
    by (simp add: ready_state_eq subscriptionKey_def example_token_fields chain_name_def
          unsubscribeMessages_def subscribeMessages_def)
qed

text \<open>
  As stated, the claim fails: a batch adds C to a list holding A and B, both subscribed;
  A and B are still listed, yet both are unsubscribed and subscribed again.
\<close>

theorem resubscribe_counterexample:
  "subscriptionsRef ready_state = [''A|tA|ETH'', ''B|tB|ETH'']
   \<and> map id_tk (tokens ready_state) = [''A'', ''B'']
   \<and> map id_tk (tokens after_batch) = [''A'', ''B'', ''C'']
   \<and> sent after_batch = sent ready_state @
       [UnsubscribePair (Some ''A'') (Some ''tA'') (Some ''ETH''),
        UnsubscribePairStats (Some ''A'') (Some ''tA'') (Some ''ETH''),
        UnsubscribePair (Some ''B'') (Some ''tB'') (Some ''ETH''),
        UnsubscribePairStats (Some ''B'') (Some ''tB'') (Some ''ETH''),
        SubscribePair (Some ''A'') (Some ''tA'') (Some ''ETH''),
        SubscribePairStats (Some ''A'') (Some ''tA'') (Some ''ETH''),
        SubscribePair (Some ''B'') (Some ''tB'') (Some ''ETH''),
        SubscribePairStats (Some ''B'') (Some ''tB'') (Some ''ETH''),
        SubscribePair (Some ''C'') (Some ''tC'') (Some ''ETH''),
        SubscribePairStats (Some ''C'') (Some ''tC'') (Some ''ETH''),
        ScannerFilter (buildApiParams example_props 1)]"
proof -
  have h: "handle_event example_props later_env example_history
             (Message (ScannerPairs example_batch)) ready_state
           = mergeScannerPairs [later_token ''A'', later_token ''C''] ready_state"
    by (simp add: handle_event_def handleWebSocketMessage_def example_batch_def
          normalize_example ready_state_eq)
  have e: "after_batch = tokensEffect example_props
          (mergeScannerPairs [later_token ''A'', later_token ''C''] ready_state)"
    unfolding after_batch_def step_def Let_def h
    by (simp add: merge_example) (simp add: ready_state_eq)
  show ?thesis
    unfolding e merge_example
    by (simp add: tokensEffect_def subscribeToTokens_open ready_state_eq
          unsubscribeMessages_def subscribeMessages_def split_keys nth_opt_def
          example_token_fields later_token_fields chain_name_def)
qed

end
